theory Spec2Isabelle
  imports Complex_Main "HOL-Library.Multiset"
begin

section \<open>The random body generator of autogen.py\<close>

text \<open>
  The script has three functions: \<open>generate_bodies\<close> samples positions, velocities and
  masses with numpy's global generator and renders them as a Java properties file,
  \<open>visualize_distributions\<close> draws a figure of freshly sampled data, and \<open>main\<close> calls
  both, writes the file and prints messages.
\<close>

subsection \<open>Floats\<close>

text \<open>
  The scales and the sampled numbers are doubles. A finite double is the rational number
  it denotes (\<open>Num\<close>, with \<open>Num 0\<close> the positive zero); the other values are the negative
  zero, the two infinities and NaN. A Python int in the range of the doubles that is
  passed for a scale is the float of the same value.

  An operation on finite operands gives its exact result when that is below
  \<open>2^1024 - 2^970\<close> in magnitude, and the infinity of its sign from there on: this is
  where rounding to the nearest double leaves the finite range. The rounding of a
  finite result to 53 bits, and underflow, are not part of the model. The special cases
  (zeros and their signs, infinities, NaN) are those of IEEE 754.
\<close>

datatype pyfloat = Num rat | NegZero | PosInf | NegInf | NaN

definition overflow_threshold :: rat where
  "overflow_threshold = 2 ^ 1024 - 2 ^ 970"

definition round_overflow :: "rat \<Rightarrow> pyfloat" where
  "round_overflow q =
     (if overflow_threshold \<le> q then PosInf
      else if q \<le> - overflow_threshold then NegInf
      else Num q)"

fun signbit :: "pyfloat \<Rightarrow> bool" where
  "signbit (Num q) = (q < 0)"
| "signbit NegZero = True"
| "signbit PosInf = False"
| "signbit NegInf = True"
| "signbit NaN = False"

fun isnan :: "pyfloat \<Rightarrow> bool" where
  "isnan NaN = True"
| "isnan x = False"

fun isinf :: "pyfloat \<Rightarrow> bool" where
  "isinf PosInf = True"
| "isinf NegInf = True"
| "isinf x = False"

fun isfinite :: "pyfloat \<Rightarrow> bool" where
  "isfinite (Num q) = True"
| "isfinite NegZero = True"
| "isfinite x = False"

fun iszero :: "pyfloat \<Rightarrow> bool" where
  "iszero (Num q) = (q = 0)"
| "iszero NegZero = True"
| "iszero x = False"

text \<open>
  The values that are doubles: a finite one is below the overflow threshold in
  magnitude. A \<open>Num\<close> beyond it stands for a Python int that no double holds.
\<close>

fun is_double :: "pyfloat \<Rightarrow> bool" where
  "is_double (Num q) = (\<bar>q\<bar> < overflow_threshold)"
| "is_double x = True"

text \<open>The number that a finite float denotes.\<close>

fun float_val :: "pyfloat \<Rightarrow> rat" where
  "float_val (Num q) = q"
| "float_val x = 0"

definition float_mul :: "pyfloat \<Rightarrow> pyfloat \<Rightarrow> pyfloat" where
  "float_mul x y =
     (if isnan x \<or> isnan y then NaN
      else if isinf x \<or> isinf y then
        (if iszero x \<or> iszero y then NaN
         else if signbit x \<noteq> signbit y then NegInf else PosInf)
      else if iszero x \<or> iszero y then
        (if signbit x \<noteq> signbit y then NegZero else Num 0)
      else round_overflow (float_val x * float_val y))"

definition float_div :: "pyfloat \<Rightarrow> pyfloat \<Rightarrow> pyfloat" where
  "float_div x y =
     (if isnan x \<or> isnan y then NaN
      else if isinf x then
        (if isinf y then NaN
         else if signbit x \<noteq> signbit y then NegInf else PosInf)
      else if isinf y then
        (if signbit x \<noteq> signbit y then NegZero else Num 0)
      else if iszero y then
        (if iszero x then NaN
         else if signbit x \<noteq> signbit y then NegInf else PosInf)
      else if iszero x then
        (if signbit x \<noteq> signbit y then NegZero else Num 0)
      else round_overflow (float_val x / float_val y))"

definition float_add :: "pyfloat \<Rightarrow> pyfloat \<Rightarrow> pyfloat" where
  "float_add x y =
     (if isnan x \<or> isnan y then NaN
      else if isinf x then (if isinf y \<and> x \<noteq> y then NaN else x)
      else if isinf y then y
      else if iszero x \<and> iszero y then
        (if x = NegZero \<and> y = NegZero then NegZero else Num 0)
      else if float_val x + float_val y = 0 then Num 0
      else round_overflow (float_val x + float_val y))"

fun float_neg :: "pyfloat \<Rightarrow> pyfloat" where
  "float_neg (Num q) = (if q = 0 then NegZero else Num (- q))"
| "float_neg NegZero = Num 0"
| "float_neg PosInf = NegInf"
| "float_neg NegInf = PosInf"
| "float_neg NaN = NaN"

definition float_sub :: "pyfloat \<Rightarrow> pyfloat \<Rightarrow> pyfloat" where
  "float_sub x y = float_add x (float_neg y)"

text \<open>
  The order of the floats that are not NaN, and the larger and the smaller of two array
  elements as \<open>max\<close> and \<open>min\<close> of numpy have them: a NaN wins.
\<close>

fun float_rank :: "pyfloat \<Rightarrow> int" where
  "float_rank NegInf = - 1"
| "float_rank PosInf = 1"
| "float_rank x = 0"

definition float_less :: "pyfloat \<Rightarrow> pyfloat \<Rightarrow> bool" where
  "float_less x y \<longleftrightarrow>
     float_rank x < float_rank y \<or> (float_rank x = float_rank y \<and> float_val x < float_val y)"

definition float_max :: "pyfloat \<Rightarrow> pyfloat \<Rightarrow> pyfloat" where
  "float_max x y = (if isnan x then x else if isnan y then y else if float_less x y then y else x)"

definition float_min :: "pyfloat \<Rightarrow> pyfloat \<Rightarrow> pyfloat" where
  "float_min x y = (if isnan x then x else if isnan y then y else if float_less y x then y else x)"

subsection \<open>Errors and the generator state\<close>

datatype pyerror = ValueError | OverflowError

text \<open>
  numpy's bit generator is not part of the script. It is a parameter: a state type \<open>'s\<close>
  and the three primitives the calls of the script are built from. \<open>next_gauss\<close> is a
  standard normal variate (a finite double), \<open>next_double\<close> a variate of the unit
  interval and \<open>next_interval m\<close> an integer between 0 and \<open>m\<close>, each with the
  generator's next state.
\<close>

record 's bitgen =
  next_gauss :: "'s \<Rightarrow> rat \<times> 's"
  next_double :: "'s \<Rightarrow> rat \<times> 's"
  next_interval :: "nat \<Rightarrow> 's \<Rightarrow> nat \<times> 's"



type_synonym vec3 = "pyfloat \<times> pyfloat \<times> pyfloat"

text \<open>
  \<open>np.random.normal(loc, scale, (n, 3))\<close>: numpy first converts the scale to a double,
  which fails with OverflowError for a Python int beyond the range of the doubles (the
  location is the literal 0 in every call). Then a scale with the sign bit set (a
  negative number, the negative zero, minus infinity) and a negative dimension are both
  rejected with ValueError before anything is drawn; a NaN scale is let through.
  Otherwise the array is filled row by row with \<open>loc + scale * gauss\<close>.
\<close>

fun normal_rows :: "'s bitgen \<Rightarrow> pyfloat \<Rightarrow> pyfloat \<Rightarrow> nat \<Rightarrow> 's \<Rightarrow> vec3 list \<times> 's" where
  "normal_rows G loc scale 0 s = ([], s)"
| "normal_rows G loc scale (Suc k) s =
     (let (x, s1) = next_gauss G s;
          (y, s2) = next_gauss G s1;
          (z, s3) = next_gauss G s2;
          (rows, s4) = normal_rows G loc scale k s3
      in ((float_add loc (float_mul scale (Num x)),
           float_add loc (float_mul scale (Num y)),
           float_add loc (float_mul scale (Num z))) # rows, s4))"

definition random_normal ::
  "'s bitgen \<Rightarrow> pyfloat \<Rightarrow> pyfloat \<Rightarrow> int \<Rightarrow> 's \<Rightarrow> pyerror + (vec3 list \<times> 's)" where
  "random_normal G loc scale n s =
     (if \<not> is_double scale then Inl OverflowError
      else if signbit scale then Inl ValueError
      else if n < 0 then Inl ValueError
      else Inr (normal_rows G loc scale (nat n) s))"

text \<open>
  \<open>np.random.uniform(low, high, n)\<close>: numpy computes the width \<open>high - low\<close> of the
  range and raises OverflowError when it is not finite, before it looks at the size; a
  negative size is rejected with ValueError; otherwise it draws \<open>low + width * double\<close>,
  \<open>n\<close> times. (The bounds of the script are results of float operations here, an
  infinity when they leave the range of the doubles: the width is not finite then, and
  the error is the OverflowError that Python or numpy raises for an int bound of that
  size.)
\<close>

fun uniform_values :: "'s bitgen \<Rightarrow> pyfloat \<Rightarrow> pyfloat \<Rightarrow> nat \<Rightarrow> 's \<Rightarrow> pyfloat list \<times> 's" where
  "uniform_values G low width 0 s = ([], s)"
| "uniform_values G low width (Suc k) s =
     (let (u, s1) = next_double G s;
          (vs, s2) = uniform_values G low width k s1
      in (float_add low (float_mul width (Num u)) # vs, s2))"

definition random_uniform ::
  "'s bitgen \<Rightarrow> pyfloat \<Rightarrow> pyfloat \<Rightarrow> int \<Rightarrow> 's \<Rightarrow> pyerror + (pyfloat list \<times> 's)" where
  "random_uniform G low high n s =
     (let width = float_sub high low
      in if \<not> isfinite width then Inl OverflowError
         else if n < 0 then Inl ValueError
         else Inr (uniform_values G low width (nat n) s))"

text \<open>
  \<open>np.random.shuffle(x)\<close> on a one-dimensional array: for \<open>i\<close> from \<open>len(x) - 1\<close> down
  to 1, draw \<open>j\<close> between 0 and \<open>i\<close> and swap \<open>x[i]\<close> with \<open>x[j]\<close>. The first argument
  of \<open>shuffle_from\<close> counts the indices still to visit.
\<close>

fun shuffle_from :: "'s bitgen \<Rightarrow> nat \<Rightarrow> 'a list \<Rightarrow> 's \<Rightarrow> 'a list \<times> 's" where
  "shuffle_from G 0 xs s = (xs, s)"
| "shuffle_from G (Suc i) xs s =
     (let (j, s1) = next_interval G (Suc i) s
      in shuffle_from G i (xs[Suc i := xs ! j, j := xs ! Suc i]) s1)"

definition shuffle :: "'s bitgen \<Rightarrow> 'a list \<Rightarrow> 's \<Rightarrow> 'a list \<times> 's" where
  "shuffle G xs s = shuffle_from G (length xs - 1) xs s"

subsection \<open>Text: str of an integer, the format \<open>.1f\<close>, join\<close>

definition digit_char :: "nat \<Rightarrow> char" where
  "digit_char d = ''0123456789'' ! d"

fun str_nat :: "nat \<Rightarrow> string" where
  "str_nat n = (if n < 10 then [digit_char n] else str_nat (n div 10) @ [digit_char (n mod 10)])"

declare str_nat.simps [simp del]

definition str_int :: "int \<Rightarrow> string" where
  "str_int i = (if i < 0 then ''-'' @ str_nat (nat (- i)) else str_nat (nat i))"

text \<open>Rounding to the nearest integer, a tie to the even neighbour.\<close>

definition round_half_even :: "rat \<Rightarrow> int" where
  "round_half_even q =
     (let f = \<lfloor>q\<rfloor>; d = q - of_int f
      in if d < 1 / 2 then f
         else if 1 / 2 < d then f + 1
         else if even f then f else f + 1)"

text \<open>
  \<open>f"{x:.1f}"\<close> for a finite \<open>x\<close> that is not the negative zero: the sign when \<open>x\<close> is
  negative (also when the digits round to zero), the integer part, a point and one
  digit. The formatting is exact on the value it is given, as it is in Python (correct
  rounding, ties to even).
\<close>

definition format_finite :: "rat \<Rightarrow> string" where
  "format_finite x =
     (let t = nat (round_half_even (\<bar>x\<bar> * 10))
      in (if x < 0 then ''-'' else '''') @ str_nat (t div 10) @ ''.'' @ [digit_char (t mod 10)])"

text \<open>\<open>f"{x:.1f}"\<close> for every float: the infinities and NaN print as words.\<close>

fun format_1f :: "pyfloat \<Rightarrow> string" where
  "format_1f (Num q) = format_finite q"
| "format_1f NegZero = ''-0.0''"
| "format_1f PosInf = ''inf''"
| "format_1f NegInf = ''-inf''"
| "format_1f NaN = ''nan''"

text \<open>\<open>sep.join(xs)\<close>.\<close>

fun join :: "string \<Rightarrow> string list \<Rightarrow> string" where
  "join sep [] = []"
| "join sep [x] = x"
| "join sep (x # y # ys) = x @ sep @ join sep (y # ys)"

definition newline :: char where
  "newline = CHR 0x0A"

subsection \<open>generate_bodies\<close>

definition body_key :: "nat \<Rightarrow> string" where
  "body_key i = ''body'' @ str_nat i"

text \<open>Lines 37 to 49: the header, up to the blank line after the list of keys.\<close>

definition header_lines :: "int \<Rightarrow> string list" where
  "header_lines n_bodies =
     [''# Physics system setup'',
      '''',
      ''# System name:'',
      ''name=Random System ('' @ str_int n_bodies @ '' bodies)'',
      ''# Gravitational constant (unrealistic units)'',
      ''gravity=10.0'',
      ''# Simulation time step (seconds)'',
      ''timeStep=0.004'',
      ''# Keys for defined bodies'',
      ''bodies='' @ join '' '' (map body_key [0..<nat n_bodies]),
      '''']"

text \<open>Lines 53 to 60: what one turn of the loop appends for body \<open>i\<close>.\<close>

definition fmt_vec3 :: "vec3 \<Rightarrow> string" where
  "fmt_vec3 v = (case v of (x, y, z) \<Rightarrow> format_1f x @ '','' @ format_1f y @ '','' @ format_1f z)"

definition body_lines :: "string \<Rightarrow> pyfloat list \<Rightarrow> vec3 list \<Rightarrow> vec3 list \<Rightarrow> nat \<Rightarrow> string list" where
  "body_lines density masses positions velocities i =
     [''# Body '' @ str_nat i @ '':'',
      body_key i @ ''.name=Body '' @ str_nat i,
      body_key i @ ''.mass='' @ format_1f (masses ! i),
      body_key i @ ''.density='' @ density,
      body_key i @ ''.position='' @ fmt_vec3 (positions ! i),
      body_key i @ ''.velocity='' @ fmt_vec3 (velocities ! i),
      body_key i @ ''.color=200,200,200'',
      '''']"

definition output_lines ::
  "int \<Rightarrow> string \<Rightarrow> pyfloat list \<Rightarrow> vec3 list \<Rightarrow> vec3 list \<Rightarrow> string list" where
  "output_lines n_bodies density masses positions velocities =
     header_lines n_bodies @
     concat (map (body_lines density masses positions velocities) [0..<nat n_bodies])"

text \<open>
  The figure of \<open>visualize_distributions\<close>: the data of its four panels. What matplotlib
  makes of the data is outside the model: its calls are taken to return.
\<close>

record figure =
  position_hist :: "pyfloat list"
  velocity_hist :: "pyfloat list"
  mass_hist :: "pyfloat list"
  scatter_points :: "vec3 list"
  scatter_sizes :: "pyfloat list"

text \<open>
  What the script can touch: the generator's state, the files (by name), the lines
  printed on the console and the figures shown on screen.
\<close>

record 's world =
  rng :: 's
  files :: "string \<rightharpoonup> string"
  console :: "string list"
  shown :: "figure list"

text \<open>
  \<open>density\<close> is the text that \<open>{density}\<close> interpolates, that is \<open>str(density)\<close>
  (\<open>0.1\<close> by default). The bounds of the masses are \<open>mass_scale/10\<close> and
  \<open>mass_scale*2\<close>. The three arrays have \<open>n_bodies\<close> rows, so every index of the loop
  is in range.
\<close>

definition generate_bodies ::
  "'s bitgen \<Rightarrow> int \<Rightarrow> pyfloat \<Rightarrow> pyfloat \<Rightarrow> pyfloat \<Rightarrow> string \<Rightarrow> 's world
     \<Rightarrow> (pyerror + string) \<times> 's world" where
  "generate_bodies G n_bodies position_scale velocity_scale mass_scale density w =
     (case random_normal G (Num 0) position_scale n_bodies (rng w) of
        Inl e \<Rightarrow> (Inl e, w)
      | Inr (positions, s1) \<Rightarrow>
     (case random_normal G (Num 0) velocity_scale n_bodies s1 of
        Inl e \<Rightarrow> (Inl e, w\<lparr>rng := s1\<rparr>)
      | Inr (velocities, s2) \<Rightarrow>
     (case random_uniform G (float_div mass_scale (Num 10)) (float_mul mass_scale (Num 2))
             n_bodies s2 of
        Inl e \<Rightarrow> (Inl e, w\<lparr>rng := s2\<rparr>)
      | Inr (masses0, s3) \<Rightarrow>
     (case shuffle G masses0 s3 of (masses, s4) \<Rightarrow>
        (Inr (join [newline] (output_lines n_bodies density masses positions velocities)),
         w\<lparr>rng := s4\<rparr>)))))"

subsection \<open>visualize_distributions and main\<close>

definition flatten :: "vec3 list \<Rightarrow> pyfloat list" where
  "flatten rows = concat (map (\<lambda>(x, y, z). [x, y, z]) rows)"

definition array_max :: "pyfloat list \<Rightarrow> pyfloat" where
  "array_max xs = fold (\<lambda>x m. float_max m x) (tl xs) (hd xs)"

definition array_min :: "pyfloat list \<Rightarrow> pyfloat" where
  "array_min xs = fold (\<lambda>x m. float_min m x) (tl xs) (hd xs)"

text \<open>
  \<open>zipf.pmf\<close> of scipy is a parameter. \<open>masses.max()\<close> raises ValueError on an empty
  array, which is the case \<open>n_bodies = 0\<close>; nothing is shown then. The calls of
  matplotlib build the figure and \<open>plt.show()\<close> displays it.
\<close>

definition visualize_distributions ::
  "'s bitgen \<Rightarrow> (nat \<Rightarrow> pyfloat \<Rightarrow> pyfloat) \<Rightarrow> int \<Rightarrow> pyfloat \<Rightarrow> pyfloat \<Rightarrow> pyfloat \<Rightarrow> pyfloat
     \<Rightarrow> 's world \<Rightarrow> (pyerror + unit) \<times> 's world" where
  "visualize_distributions G zipf_pmf n_bodies position_scale velocity_scale mass_scale zipf_param w =
     (case random_normal G (Num 0) position_scale n_bodies (rng w) of
        Inl e \<Rightarrow> (Inl e, w)
      | Inr (positions, s1) \<Rightarrow>
     (case random_normal G (Num 0) velocity_scale n_bodies s1 of
        Inl e \<Rightarrow> (Inl e, w\<lparr>rng := s1\<rparr>)
      | Inr (velocities, s2) \<Rightarrow>
     (let ranks = [1..<nat (n_bodies + 1)];
          masses0 = map (\<lambda>r. float_mul (float_mul (zipf_pmf r zipf_param) mass_scale)
                                (Num (of_int n_bodies))) ranks
      in case shuffle G masses0 s2 of (masses, s3) \<Rightarrow>
        if masses = [] then (Inl ValueError, w\<lparr>rng := s3\<rparr>)
        else
          (let mx = array_max masses;
               fig = \<lparr>position_hist = flatten positions,
                      velocity_hist = flatten velocities,
                      mass_hist = masses,
                      scatter_points = positions,
                      scatter_sizes = map (\<lambda>m. float_mul (float_div m mx) (Num 50)) masses\<rparr>
           in (Inr (), w\<lparr>rng := s3, shown := shown w @ [fig]\<rparr>)))))"

definition print :: "string \<Rightarrow> 's world \<Rightarrow> 's world" where
  "print line w = w\<lparr>console := console w @ [line]\<rparr>"

definition write_file :: "string \<Rightarrow> string \<Rightarrow> 's world \<Rightarrow> 's world" where
  "write_file name content w = w\<lparr>files := (files w)(name \<mapsto> content)\<rparr>"

definition main ::
  "'s bitgen \<Rightarrow> (nat \<Rightarrow> pyfloat \<Rightarrow> pyfloat) \<Rightarrow> 's world \<Rightarrow> (pyerror + unit) \<times> 's world" where
  "main G zipf_pmf w =
     (let n_bodies = 100 in
      case generate_bodies G n_bodies (Num 1000) (Num 30) (Num 10000) ''0.1'' w of
        (Inl e, w1) \<Rightarrow> (Inl e, w1)
      | (Inr system_config, w1) \<Rightarrow>
     (let w2 = write_file ''random_system.properties'' system_config w1 in
      case visualize_distributions G zipf_pmf n_bodies (Num 1000) (Num 30) (Num 10000)
             (Num (3 / 2)) w2 of
        (Inl e, w3) \<Rightarrow> (Inl e, w3)
      | (Inr u, w3) \<Rightarrow>
     (let w4 = print (''Generated '' @ str_int n_bodies @ '' bodies in 'random_system.properties'' @ [CHR 0x27]) w3;
          w5 = print (''Visualization saved to 'body_distributions.png'' @ [CHR 0x27]) w4
      in case random_normal G (Num 0) (Num 1000) n_bodies (rng w5) of
        Inl e \<Rightarrow> (Inl e, w5)
      | Inr (positions, s6) \<Rightarrow>
     (case random_normal G (Num 0) (Num 30) n_bodies s6 of
        Inl e \<Rightarrow> (Inl e, w5\<lparr>rng := s6\<rparr>)
      | Inr (velocities, s7) \<Rightarrow>
     (let ranks = [1..<nat (n_bodies + 1)];
          masses = map (\<lambda>r. float_mul (float_mul (zipf_pmf r (Num (3 / 2))) (Num 10000))
                               (Num (of_int n_bodies))) ranks;
          w8 = print (newline # ''Statistics:'') (w5\<lparr>rng := s7\<rparr>);
          w9 = print (''Position range: ['' @ format_1f (array_min (flatten positions)) @ '', ''
                       @ format_1f (array_max (flatten positions)) @ '']'') w8;
          w10 = print (''Velocity range: ['' @ format_1f (array_min (flatten velocities)) @ '', ''
                       @ format_1f (array_max (flatten velocities)) @ '']'') w9;
          w11 = print (''Mass range: ['' @ format_1f (array_min masses) @ '', ''
                       @ format_1f (array_max masses) @ '']'') w10;
          w12 = print (''Largest mass / smallest mass: ''
                       @ format_1f (float_div (array_max masses) (array_min masses))) w11
      in (Inr (), w12))))))"

subsection \<open>The reader of the document\<close>

text \<open>
  The properties are stated on what a line-oriented reader of \<open>key=value\<close> files sees:
  the text is split at line breaks, a blank line and a line that starts with \<open>#\<close> are
  skipped, a line is split at its first \<open>=\<close>, and a key \<open>body.field\<close> is split at its
  first point.
\<close>

fun split_on :: "char \<Rightarrow> string \<Rightarrow> string list" where
  "split_on c [] = [[]]"
| "split_on c (x # xs) =
     (if x = c then [] # split_on c xs
      else (x # hd (split_on c xs)) # tl (split_on c xs))"

definition lines_of :: "string \<Rightarrow> string list" where
  "lines_of doc = split_on newline doc"

definition parse_line :: "string \<Rightarrow> (string \<times> string) option" where
  "parse_line l =
     (if l = [] \<or> hd l = CHR ''#'' \<or> CHR ''='' \<notin> set l then None
      else Some (takeWhile (\<lambda>c. c \<noteq> CHR ''='') l, tl (dropWhile (\<lambda>c. c \<noteq> CHR ''='') l)))"

definition entries :: "string \<Rightarrow> (string \<times> string) list" where
  "entries doc = List.map_filter parse_line (lines_of doc)"

definition key_prefix :: "string \<Rightarrow> string" where
  "key_prefix k = takeWhile (\<lambda>c. c \<noteq> CHR ''.'') k"

definition key_suffix :: "string \<Rightarrow> string" where
  "key_suffix k = dropWhile (\<lambda>c. c \<noteq> CHR ''.'') k"

text \<open>The values stored under a key, and the number of keys with a given suffix.\<close>

definition values_of :: "string \<Rightarrow> string \<Rightarrow> string list" where
  "values_of key doc = map snd (filter (\<lambda>e. fst e = key) (entries doc))"

definition suffix_count :: "string \<Rightarrow> string \<Rightarrow> nat" where
  "suffix_count sfx doc = length (filter (\<lambda>e. key_suffix (fst e) = sfx) (entries doc))"

text \<open>The words of a value: its pieces between single spaces, none for the empty value.\<close>

definition words_of :: "string \<Rightarrow> string list" where
  "words_of v = (if v = [] then [] else split_on CHR '' '' v)"

text \<open>The keys that the \<open>bodies\<close> entry lists.\<close>

definition listed_keys :: "string \<Rightarrow> string list" where
  "listed_keys doc = (case map_of (entries doc) ''bodies'' of None \<Rightarrow> [] | Some v \<Rightarrow> words_of v)"

text \<open>The body keys of the per-body entries, in the order of the document.\<close>

definition section_keys :: "string \<Rightarrow> string list" where
  "section_keys doc =
     map (\<lambda>e. key_prefix (fst e)) (filter (\<lambda>e. CHR ''.'' \<in> set (fst e)) (entries doc))"

text \<open>A decimal number with one decimal place, and its value.\<close>

definition is_digit :: "char \<Rightarrow> bool" where
  "is_digit c \<longleftrightarrow> c \<in> set ''0123456789''"

definition digit_val :: "char \<Rightarrow> nat" where
  "digit_val c = of_char c - 48"

definition nat_of_digits :: "string \<Rightarrow> nat" where
  "nat_of_digits s = foldl (\<lambda>a c. 10 * a + digit_val c) 0 s"




text \<open>
  What \<open>str\<close> gives for a Python int or float: a non-empty text of digits, sign,
  point, exponent mark and the letters of \<open>inf\<close> and \<open>nan\<close>.
\<close>

definition number_text :: "string \<Rightarrow> bool" where
  "number_text s \<longleftrightarrow> s \<noteq> [] \<and> set s \<subseteq> set ''0123456789.e+-infa''"

text \<open>The keys of the entries that open a section: a section starts with its name entry.\<close>

definition section_heads :: "string \<Rightarrow> string list" where
  "section_heads doc =
     map (\<lambda>e. key_prefix (fst e)) (filter (\<lambda>e. key_suffix (fst e) = ''.name'') (entries doc))"


text \<open>
  The entries that the reader finds in the header and in the section of body \<open>i\<close>
  (shown below to be the entries of the generated document).
\<close>

definition header_entries :: "int \<Rightarrow> (string \<times> string) list" where
  "header_entries n_bodies =
     [(''name'', ''Random System ('' @ str_int n_bodies @ '' bodies)''),
      (''gravity'', ''10.0''),
      (''timeStep'', ''0.004''),
      (''bodies'', join '' '' (map body_key [0..<nat n_bodies]))]"

definition body_entries ::
  "string \<Rightarrow> pyfloat list \<Rightarrow> vec3 list \<Rightarrow> vec3 list \<Rightarrow> nat \<Rightarrow> (string \<times> string) list" where
  "body_entries density masses positions velocities i =
     [(body_key i @ ''.name'', ''Body '' @ str_nat i),
      (body_key i @ ''.mass'', format_1f (masses ! i)),
      (body_key i @ ''.density'', density),
      (body_key i @ ''.position'', fmt_vec3 (positions ! i)),
      (body_key i @ ''.velocity'', fmt_vec3 (velocities ! i)),
      (body_key i @ ''.color'', ''200,200,200'')]"

text \<open>
  The arrays of one call of \<open>generate_bodies\<close> that gets past the checks of numpy, from
  the generator's state at the call: positions, velocities, the masses as drawn (line 32)
  and as shuffled (line 33), and the generator's state after the call. \<open>mass_range\<close>
  is the range that numpy computes for the masses, \<open>high - low\<close>.
\<close>

definition mass_range :: "pyfloat \<Rightarrow> pyfloat" where
  "mass_range mass_scale = float_sub (float_mul mass_scale (Num 2)) (float_div mass_scale (Num 10))"

definition samples ::
  "'s bitgen \<Rightarrow> int \<Rightarrow> pyfloat \<Rightarrow> pyfloat \<Rightarrow> pyfloat \<Rightarrow> 's
     \<Rightarrow> vec3 list \<times> vec3 list \<times> pyfloat list \<times> pyfloat list \<times> 's" where
  "samples G n_bodies position_scale velocity_scale mass_scale s =
     (case normal_rows G (Num 0) position_scale (nat n_bodies) s of (positions, s1) \<Rightarrow>
      case normal_rows G (Num 0) velocity_scale (nat n_bodies) s1 of (velocities, s2) \<Rightarrow>
      case uniform_values G (float_div mass_scale (Num 10)) (mass_range mass_scale)
             (nat n_bodies) s2 of (masses0, s3) \<Rightarrow>
      case shuffle G masses0 s3 of (masses, s4) \<Rightarrow>
        (positions, velocities, masses0, masses, s4))"

subsection \<open>A generator and a world for the examples\<close>

text \<open>
  A small deterministic generator whose state counts the draws, and an empty world.
\<close>

definition G0 :: "int bitgen" where
  "G0 = \<lparr>next_gauss = (\<lambda>s. (of_int (s mod 16) / 4 - 1, s + 1)),
         next_double = (\<lambda>s. (of_int (s mod 4) / 4, s + 1)),
         next_interval = (\<lambda>m s. (nat (s mod (int m + 1)), s + 1))\<rparr>"

definition w0 :: "int world" where
  "w0 = \<lparr>rng = 0, files = Map.empty, console = [], shown = []\<rparr>"

text \<open>The document that \<open>G0\<close> gives for two bodies and the default scales.\<close>

definition example_lines :: "string list" where
  "example_lines =
    [''# Physics system setup'', [], ''# System name:'', ''name=Random System (2 bodies)'',
     ''# Gravitational constant (unrealistic units)'', ''gravity=10.0'',
     ''# Simulation time step (seconds)'', ''timeStep=0.004'', ''# Keys for defined bodies'',
     ''bodies=body0 body1'', [],
     ''# Body 0:'', ''body0.name=Body 0'', ''body0.mass=5750.0'', ''body0.density=0.1'',
     ''body0.position=-1000.0,-750.0,-500.0'', ''body0.velocity=15.0,22.5,30.0'',
     ''body0.color=200,200,200'', [],
     ''# Body 1:'', ''body1.name=Body 1'', ''body1.mass=1000.0'', ''body1.density=0.1'',
     ''body1.position=-250.0,0.0,250.0'', ''body1.velocity=37.5,45.0,52.5'',
     ''body1.color=200,200,200'', []]"

definition example_doc :: string where
  "example_doc = join [newline] example_lines"



definition w1 :: "int world" where
  "w1 = \<lparr>rng = 0, files = [''random_system.properties'' \<mapsto> ''old''],
          console = [''ready''], shown = []\<rparr>"



text \<open>
  The document that \<open>G0\<close> gives from its state 12 for one body and the position scale
  \<open>10^308\<close>: the normal variates are 2, 2.25 and 2.5, and the three products overflow.
\<close>

definition w12 :: "int world" where
  "w12 = \<lparr>rng = 12, files = Map.empty, console = [], shown = []\<rparr>"



section \<open>Properties\<close>

subsection \<open>Floats\<close>

lemma overflow_threshold_large: "(10::rat) ^ 300 < overflow_threshold"
  by (simp add: overflow_threshold_def)

lemma round_overflow_finite: "\<bar>q\<bar> < overflow_threshold \<Longrightarrow> round_overflow q = Num q"
  by (auto simp: round_overflow_def)

lemma round_overflow_small: "\<bar>q\<bar> \<le> 1000000 \<Longrightarrow> round_overflow q = Num q"
proof -
  assume "\<bar>q\<bar> \<le> 1000000"
  moreover have "(1000000::rat) < 10 ^ 300" by simp
  ultimately have "\<bar>q\<bar> < overflow_threshold"
    using overflow_threshold_large by linarith
  then show ?thesis by (rule round_overflow_finite)
qed

lemma is_double_small: "q \<le> 1000000 \<Longrightarrow> q < overflow_threshold"
proof -
  assume "q \<le> 1000000"
  moreover have "(1000000::rat) < 10 ^ 300" by simp
  ultimately show "q < overflow_threshold"
    using overflow_threshold_large by linarith
qed

lemma round_overflow_isfinite:
  "isfinite (round_overflow q) \<longleftrightarrow> \<bar>q\<bar> < overflow_threshold"
  by (auto simp: round_overflow_def)

lemma isfinite_cases: "isfinite x \<longleftrightarrow> x = NegZero \<or> (\<exists>q. x = Num q)"
  by (cases x) simp_all




lemma mass_range_default: "mass_range (Num 10000) = Num 19000"
  by (simp add: mass_range_def float_sub_def float_add_def float_mul_def float_div_def
      round_overflow_small)

subsection \<open>Sampling\<close>







lemma length_shuffle_from: "length (fst (shuffle_from G i xs s)) = length xs"
  by (induction i arbitrary: xs s) (simp_all add: split_beta)

lemma length_shuffle: "length (fst (shuffle G xs s)) = length xs"
  by (simp add: shuffle_def length_shuffle_from)

subsection \<open>Decimal digits\<close>

lemma digit_char_is_digit: "d < 10 \<Longrightarrow> is_digit (digit_char d)"
  by (simp add: is_digit_def digit_char_def del: set_simps)

lemma digit_val_digit_char: "d < 10 \<Longrightarrow> digit_val (digit_char d) = d"
proof -
  assume "d < 10"
  then have "d \<in> {0,1,2,3,4,5,6,7,8,9}" by auto
  then show ?thesis by (auto simp: digit_val_def digit_char_def)
qed

lemma str_nat_digits: "list_all is_digit (str_nat n)"
proof (induction n rule: str_nat.induct)
  case (1 n)
  show ?case
  proof (cases "n < 10")
    case True
    then show ?thesis by (subst str_nat.simps) (simp add: digit_char_is_digit)
  next
    case False
    then show ?thesis using 1 by (subst str_nat.simps) (simp add: digit_char_is_digit)
  qed
qed


lemma nat_of_digits_snoc: "nat_of_digits (s @ [c]) = 10 * nat_of_digits s + digit_val c"
  by (simp add: nat_of_digits_def)

lemma nat_of_digits_str_nat: "nat_of_digits (str_nat n) = n"
proof (induction n rule: str_nat.induct)
  case (1 n)
  show ?case
  proof (cases "n < 10")
    case True
    then show ?thesis
      by (subst str_nat.simps) (simp add: nat_of_digits_def digit_val_digit_char)
  next
    case False
    then show ?thesis using 1
      by (subst str_nat.simps) (simp add: nat_of_digits_snoc digit_val_digit_char)
  qed
qed

lemma str_nat_inj: "str_nat m = str_nat n \<Longrightarrow> m = n"
  by (metis nat_of_digits_str_nat)

lemma body_key_inj: "body_key i = body_key j \<longleftrightarrow> i = j"
  by (auto simp: body_key_def dest: str_nat_inj)

subsection \<open>Splitting and parsing lines\<close>

lemma split_on_nonempty: "split_on c s \<noteq> []"
  by (induction s) simp_all

lemma split_on_append: "split_on c (a @ c # b) = split_on c a @ split_on c b"
proof (induction a)
  case Nil
  then show ?case by simp
next
  case (Cons x a)
  then show ?case using split_on_nonempty [of c a] by (cases "split_on c a") auto
qed

lemma split_on_none: "c \<notin> set a \<Longrightarrow> split_on c a = [a]"
  by (induction a) auto

lemma split_on_join:
  "ls \<noteq> [] \<Longrightarrow> split_on c (join [c] ls) = concat (map (split_on c) ls)"
proof (induction "[c]" ls rule: join.induct)
  case 1
  then show ?case by simp
next
  case (2 x)
  then show ?case by simp
next
  case (3 x y ys)
  then show ?case by (simp add: split_on_append)
qed

lemma split_on_join_plain:
  assumes "ls \<noteq> []" "\<And>l. l \<in> set ls \<Longrightarrow> c \<notin> set l"
  shows "split_on c (join [c] ls) = ls"
proof -
  have "concat (map (split_on c) ls) = concat (map (\<lambda>l. [l]) ls)"
    using assms(2) by (intro arg_cong [where f = concat] map_cong) (simp_all add: split_on_none)
  also have "\<dots> = ls" by (induction ls) simp_all
  finally show ?thesis using assms(1) by (simp add: split_on_join)
qed

lemma takeWhile_until: "c \<notin> set k \<Longrightarrow> takeWhile (\<lambda>x. x \<noteq> c) (k @ c # v) = k"
  by (induction k) auto

lemma dropWhile_until: "c \<notin> set k \<Longrightarrow> dropWhile (\<lambda>x. x \<noteq> c) (k @ c # v) = c # v"
  by (induction k) auto

lemma parse_line_kv:
  assumes "k \<noteq> []" "hd k \<noteq> CHR ''#''" "CHR ''='' \<notin> set k"
  shows "parse_line (k @ CHR ''='' # v) = Some (k, v)"
  using assms by (simp add: parse_line_def takeWhile_until dropWhile_until)

lemma parse_line_comment: "parse_line (CHR ''#'' # l) = None"
  by (simp add: parse_line_def)

lemma parse_line_blank: "parse_line [] = None"
  by (simp add: parse_line_def)

subsection \<open>The characters of the generated texts\<close>

lemma str_nat_set: "c \<in> set (str_nat n) \<Longrightarrow> is_digit c"
  using str_nat_digits [of n] by (simp add: list_all_iff)

lemma str_int_set: "c \<in> set (str_int i) \<Longrightarrow> c = CHR ''-'' \<or> is_digit c"
  by (auto simp: str_int_def dest: str_nat_set split: if_splits)

lemma format_finite_set:
  "c \<in> set (format_finite x) \<Longrightarrow> c = CHR ''-'' \<or> c = CHR ''.'' \<or> is_digit c"
  by (auto simp: format_finite_def Let_def digit_char_is_digit dest: str_nat_set split: if_splits)

lemma body_key_set: "c \<in> set (body_key i) \<Longrightarrow> c \<in> set ''body'' \<or> is_digit c"
  by (auto simp: body_key_def dest: str_nat_set)

lemma body_key_hd: "body_key i \<noteq> [] \<and> hd (body_key i) = CHR ''b''"
  by (simp add: body_key_def)

subsection \<open>Decimal numbers with one place\<close>





















subsection \<open>The lines and the entries of the document\<close>

lemma join_set: "c \<in> set (join sep ls) \<Longrightarrow> c \<in> set sep \<or> (\<exists>l\<in>set ls. c \<in> set l)"
  by (induction sep ls rule: join.induct) auto

lemma join_nonempty: "ls \<noteq> [] \<Longrightarrow> \<forall>l\<in>set ls. l \<noteq> [] \<Longrightarrow> join sep ls \<noteq> []"
  by (induction sep ls rule: join.induct) auto

lemma digit_not_special:
  "is_digit c \<Longrightarrow>
     c \<noteq> newline \<and> c \<noteq> CHR ''='' \<and> c \<noteq> CHR ''.'' \<and> c \<noteq> CHR '','' \<and> c \<noteq> CHR '' '' \<and> c \<noteq> CHR ''#''"
  by (auto simp: is_digit_def newline_def)

lemma body_key_plain:
  "c \<in> set (body_key i) \<Longrightarrow>
     c \<noteq> newline \<and> c \<noteq> CHR ''='' \<and> c \<noteq> CHR ''.'' \<and> c \<noteq> CHR '','' \<and> c \<noteq> CHR '' '' \<and> c \<noteq> CHR ''#''"
  using digit_not_special [of c] by (auto simp: newline_def dest!: body_key_set)

lemma str_nat_no_newline: "newline \<notin> set (str_nat n)"
  using digit_not_special by (blast dest: str_nat_set)

lemma str_int_no_newline: "newline \<notin> set (str_int n)"
  using digit_not_special by (auto simp: newline_def dest!: str_int_set)

lemma body_key_no_newline: "newline \<notin> set (body_key i)"
  using body_key_plain by blast

lemma format_1f_plain:
  "c \<in> set (format_1f x) \<Longrightarrow> c \<noteq> newline \<and> c \<noteq> CHR ''='' \<and> c \<noteq> CHR '','' \<and> c \<noteq> CHR ''#''"
proof (cases x)
  case (Num q)
  assume "c \<in> set (format_1f x)"
  then have "c = CHR ''-'' \<or> c = CHR ''.'' \<or> is_digit c"
    using Num by (simp add: format_finite_set)
  then show ?thesis using digit_not_special [of c] by (auto simp: newline_def)
qed (auto simp: newline_def)

lemma format_1f_no_newline: "newline \<notin> set (format_1f x)"
  using format_1f_plain by blast


lemma fmt_vec3_no_newline: "newline \<notin> set (fmt_vec3 v)"
  using format_1f_no_newline by (cases v) (simp add: fmt_vec3_def newline_def)

lemma keys_line_no_newline: "newline \<notin> set (join '' '' (map body_key ks))"
  using body_key_no_newline by (auto simp: newline_def dest!: join_set)

lemma header_lines_all_plain: "list_all (\<lambda>l. newline \<notin> set l) (header_lines n)"
  by (simp add: header_lines_def newline_def str_int_no_newline [unfolded newline_def]
      keys_line_no_newline [unfolded newline_def])

lemma header_lines_plain: "l \<in> set (header_lines n) \<Longrightarrow> newline \<notin> set l"
  using header_lines_all_plain [of n] by (simp add: list_all_iff)

lemma body_lines_all_plain:
  "newline \<notin> set density \<Longrightarrow>
     list_all (\<lambda>l. newline \<notin> set l) (body_lines density ms ps vs i)"
  by (simp add: body_lines_def newline_def str_nat_no_newline [unfolded newline_def]
      body_key_no_newline [unfolded newline_def] format_1f_no_newline [unfolded newline_def]
      fmt_vec3_no_newline [unfolded newline_def])

lemma body_lines_plain:
  "newline \<notin> set density \<Longrightarrow> l \<in> set (body_lines density ms ps vs i) \<Longrightarrow> newline \<notin> set l"
  using body_lines_all_plain [of density ms ps vs i] by (simp add: list_all_iff)

lemma concat_map_singleton: "concat (map (\<lambda>l. [l]) ls) = ls"
  by (induction ls) simp_all

lemma lines_of_plain:
  assumes "\<And>l. l \<in> set ls \<Longrightarrow> newline \<notin> set l"
  shows "concat (map lines_of ls) = ls"
  using assms by (induction ls) (simp_all add: lines_of_def split_on_none)

lemma concat_map_concat:
  "concat (map f (concat xss)) = concat (map (\<lambda>xs. concat (map f xs)) xss)"
  by (induction xss) simp_all

lemma output_lines_nonempty: "output_lines n d ms ps vs \<noteq> []"
  by (simp add: output_lines_def header_lines_def)

lemma lines_of_document:
  "lines_of (join [newline] (output_lines n d ms ps vs)) =
     header_lines n @ concat (map (\<lambda>i. concat (map lines_of (body_lines d ms ps vs i))) [0..<nat n])"
proof -
  have "lines_of (join [newline] (output_lines n d ms ps vs)) =
      concat (map lines_of (output_lines n d ms ps vs))"
    unfolding lines_of_def by (rule split_on_join) (rule output_lines_nonempty)
  also have "\<dots> = concat (map lines_of (header_lines n)) @
      concat (map lines_of (concat (map (body_lines d ms ps vs) [0..<nat n])))"
    by (simp add: output_lines_def)
  also have "concat (map lines_of (header_lines n)) = header_lines n"
    by (rule lines_of_plain) (rule header_lines_plain)
  also have "concat (map lines_of (concat (map (body_lines d ms ps vs) [0..<nat n]))) =
      concat (map (\<lambda>i. concat (map lines_of (body_lines d ms ps vs i))) [0..<nat n])"
    by (simp add: concat_map_concat comp_def)
  finally show ?thesis .
qed

lemma lines_of_document_plain:
  assumes "newline \<notin> set d"
  shows "lines_of (join [newline] (output_lines n d ms ps vs)) = output_lines n d ms ps vs"
proof -
  have "\<And>i. concat (map lines_of (body_lines d ms ps vs i)) = body_lines d ms ps vs i"
    by (rule lines_of_plain) (rule body_lines_plain [OF assms])
  then have "header_lines n @ concat (map (\<lambda>i. concat (map lines_of (body_lines d ms ps vs i))) [0..<nat n])
      = output_lines n d ms ps vs"
    by (simp add: output_lines_def)
  then show ?thesis by (simp only: lines_of_document)
qed

lemma map_filter_concat:
  "List.map_filter f (concat xss) = concat (map (List.map_filter f) xss)"
  by (induction xss) (simp_all add: map_filter_def)

lemma map_filter_append: "List.map_filter f (xs @ ys) = List.map_filter f xs @ List.map_filter f ys"
  by (simp add: map_filter_def)

lemma parse_header_lines: "List.map_filter parse_line (header_lines n) = header_entries n"
  by (simp add: header_lines_def header_entries_def map_filter_simps parse_line_def)

lemma takeWhile_body_key:
  "takeWhile (\<lambda>c. c \<noteq> CHR ''='') (body_key i @ s) = body_key i @ takeWhile (\<lambda>c. c \<noteq> CHR ''='') s"
  using body_key_plain by (simp add: takeWhile_append2)

lemma dropWhile_body_key:
  "dropWhile (\<lambda>c. c \<noteq> CHR ''='') (body_key i @ s) = dropWhile (\<lambda>c. c \<noteq> CHR ''='') s"
  using body_key_plain by (simp add: dropWhile_append2)

lemma hd_body_key: "hd (body_key i @ s) = CHR ''b''"
  by (simp add: body_key_def)

lemma parse_body_lines:
  "List.map_filter parse_line (body_lines d ms ps vs i) = body_entries d ms ps vs i"
  by (simp add: body_lines_def body_entries_def map_filter_simps parse_line_def
      takeWhile_body_key dropWhile_body_key hd_body_key)

lemma entries_document:
  assumes "newline \<notin> set d"
  shows "entries (join [newline] (output_lines n d ms ps vs)) =
     header_entries n @ concat (map (body_entries d ms ps vs) [0..<nat n])"
proof -
  have "entries (join [newline] (output_lines n d ms ps vs)) =
      List.map_filter parse_line (output_lines n d ms ps vs)"
    by (simp only: entries_def lines_of_document_plain [OF assms])
  also have "\<dots> = header_entries n @ concat (map (body_entries d ms ps vs) [0..<nat n])"
    by (simp add: output_lines_def map_filter_append map_filter_concat parse_header_lines
        parse_body_lines comp_def)
  finally show ?thesis .
qed

lemma entries_document_header:
  "\<exists>rest. entries (join [newline] (output_lines n d ms ps vs)) = header_entries n @ rest"
  by (simp add: entries_def lines_of_document map_filter_append parse_header_lines)

subsection \<open>What generate_bodies returns\<close>

lemma generate_bodies_ok:
  assumes "0 \<le> n" "is_double ps" "\<not> signbit ps" "is_double vs" "\<not> signbit vs"
    "isfinite (mass_range ms)"
  shows "generate_bodies G n ps vs ms d w =
     (case samples G n ps vs ms (rng w) of (positions, velocities, masses0, masses, s4) \<Rightarrow>
        (Inr (join [newline] (output_lines n d masses positions velocities)), w\<lparr>rng := s4\<rparr>))"
  using assms
  by (simp add: generate_bodies_def samples_def random_normal_def random_uniform_def
      mass_range_def Let_def split: prod.splits)

lemma generate_bodies_InrD:
  assumes "generate_bodies G n ps vs ms d w = (Inr doc, w')"
  shows "0 \<le> n \<and> is_double ps \<and> \<not> signbit ps \<and> is_double vs \<and> \<not> signbit vs \<and>
         isfinite (mass_range ms)"
  using assms
  by (auto simp: generate_bodies_def random_normal_def random_uniform_def mass_range_def Let_def
      split: if_splits sum.splits prod.splits)

lemma generate_bodies_document:
  assumes "generate_bodies G n ps vs ms d w = (Inr doc, w')"
  obtains positions velocities masses0 masses s4
  where "samples G n ps vs ms (rng w) = (positions, velocities, masses0, masses, s4)"
    and "doc = join [newline] (output_lines n d masses positions velocities)"
    and "w' = w\<lparr>rng := s4\<rparr>"
proof -
  obtain positions velocities masses0 masses s4
    where s: "samples G n ps vs ms (rng w) = (positions, velocities, masses0, masses, s4)"
    by (metis prod_cases5)
  from generate_bodies_InrD [OF assms]
  have "0 \<le> n" "is_double ps" "\<not> signbit ps" "is_double vs" "\<not> signbit vs"
    "isfinite (mass_range ms)"
    by simp_all
  from generate_bodies_ok [OF this, of G d w] assms s
  have "doc = join [newline] (output_lines n d masses positions velocities)" "w' = w\<lparr>rng := s4\<rparr>"
    by simp_all
  with s show ?thesis by (rule that)
qed

subsection \<open>Keys\<close>

lemma key_prefix_body [simp]: "key_prefix (body_key i @ CHR ''.'' # f) = body_key i"
  unfolding key_prefix_def using body_key_plain by (intro takeWhile_until) blast

lemma key_suffix_body [simp]: "key_suffix (body_key i @ CHR ''.'' # f) = CHR ''.'' # f"
  unfolding key_suffix_def using body_key_plain by (intro dropWhile_until) blast

lemma body_field_eq [simp]:
  "body_key i @ CHR ''.'' # f = body_key j @ CHR ''.'' # g \<longleftrightarrow> i = j \<and> f = g"
proof
  assume eq: "body_key i @ CHR ''.'' # f = body_key j @ CHR ''.'' # g"
  from arg_cong [OF eq, of key_prefix] have "i = j" by (simp add: body_key_inj)
  moreover from arg_cong [OF eq, of key_suffix] have "f = g" by simp
  ultimately show "i = j \<and> f = g" ..
qed simp

lemma point_in_body_field [simp]: "CHR ''.'' \<in> set (body_key i @ CHR ''.'' # f)"
  by simp

lemma global_key_not_body:
  "g \<in> set [''name'', ''gravity'', ''timeStep'', ''bodies''] \<Longrightarrow> g \<noteq> body_key i @ f"
  by (auto simp: body_key_def)

subsection \<open>Filtering the entries\<close>

lemma length_filter_concat_one:
  "(\<And>x. x \<in> set xs \<Longrightarrow> length (filter P (f x)) = 1) \<Longrightarrow>
     length (filter P (concat (map f xs))) = length xs"
  by (induction xs) simp_all

lemma filter_concat_none:
  "(\<And>x. x \<in> set xs \<Longrightarrow> filter P (f x) = []) \<Longrightarrow> filter P (concat (map f xs)) = []"
  by (induction xs) simp_all

lemma filter_concat_at:
  assumes "distinct xs" "i \<in> set xs"
    and "\<And>x. x \<in> set xs \<Longrightarrow> x \<noteq> i \<Longrightarrow> filter P (f x) = []"
  shows "filter P (concat (map f xs)) = filter P (f i)"
  using assms
proof (induction xs)
  case Nil
  then show ?case by simp
next
  case (Cons x xs)
  show ?case
  proof (cases "x = i")
    case True
    then have "i \<notin> set xs" using Cons.prems(1) by simp
    then have "filter P (concat (map f xs)) = []"
      using Cons.prems(3) by (intro filter_concat_none) auto
    then show ?thesis using True by simp
  next
    case False
    then have "filter P (f x) = []" using Cons.prems(3) by simp
    moreover have "filter P (concat (map f xs)) = filter P (f i)"
      using Cons.prems False by (intro Cons.IH) auto
    ultimately show ?thesis by simp
  qed
qed

subsection \<open>The example document\<close>

lemma ex_samples:
  "samples G0 2 (Num 1000) (Num 30) (Num 10000) 0 =
    ([(Num (- 1000), Num (- 750), Num (- 500)), (Num (- 250), Num 0, Num 250)],
     [(Num 15, Num (45 / 2), Num 30), (Num (75 / 2), Num 45, Num (105 / 2))],
     [Num 1000, Num 5750], [Num 5750, Num 1000], 15)"
proof -
  have h: "nat (2::int) = Suc (Suc 0)" by simp
  show ?thesis
    unfolding samples_def h mass_range_default
    by (simp add: G0_def shuffle_def float_mul_def float_add_def float_div_def
        round_overflow_small)
qed

lemma ex_fmt:
  "format_finite 5750 = ''5750.0''" "format_finite 1000 = ''1000.0''" "format_finite (- 1000) = ''-1000.0''"
  "format_finite (- 750) = ''-750.0''" "format_finite (- 500) = ''-500.0''" "format_finite (- 250) = ''-250.0''"
  "format_finite 0 = ''0.0''" "format_finite 250 = ''250.0''" "format_finite 15 = ''15.0''"
  "format_finite (45 / 2) = ''22.5''" "format_finite 30 = ''30.0''" "format_finite (75 / 2) = ''37.5''"
  "format_finite 45 = ''45.0''" "format_finite (105 / 2) = ''52.5''"
  by (simp_all add: format_finite_def round_half_even_def Let_def str_nat.simps digit_char_def)

lemma ex_lines:
  "output_lines 2 ''0.1'' [Num 5750, Num 1000]
      [(Num (- 1000), Num (- 750), Num (- 500)), (Num (- 250), Num 0, Num 250)]
      [(Num 15, Num (45 / 2), Num 30), (Num (75 / 2), Num 45, Num (105 / 2))] = example_lines"
proof -
  have u: "[0..<2::nat] = [0, 1]" by (simp add: numeral_2_eq_2)
  show ?thesis
    by (simp add: output_lines_def header_lines_def body_lines_def body_key_def example_lines_def
        fmt_vec3_def ex_fmt str_int_def str_nat.simps digit_char_def u)
qed

lemma ex_gen:
  "generate_bodies G0 2 (Num 1000) (Num 30) (Num 10000) ''0.1'' w0 =
     (Inr example_doc, w0\<lparr>rng := 15\<rparr>)"
proof -
  have "rng w0 = 0" by (simp add: w0_def)
  then show ?thesis
    by (simp add: generate_bodies_ok is_double_small mass_range_default ex_samples ex_lines
        example_doc_def)
qed

subsection \<open>The entries by key and by suffix\<close>

lemma number_text_plain: "number_text d \<Longrightarrow> newline \<notin> set d \<and> d \<noteq> []"
  by (auto simp: number_text_def newline_def)

lemma header_no_suffix:
  "sfx \<noteq> [] \<Longrightarrow> filter (\<lambda>e. key_suffix (fst e) = sfx) (header_entries n) = []"
  by (auto simp: header_entries_def key_suffix_def)

lemma body_one_suffix:
  "sfx \<in> set [''.name'', ''.mass'', ''.density'', ''.position'', ''.velocity'', ''.color''] \<Longrightarrow>
     length (filter (\<lambda>e. key_suffix (fst e) = sfx) (body_entries d ms ps vs i)) = 1"
  by (auto simp: body_entries_def)

lemma suffix_count_entries:
  assumes "sfx \<in> set [''.name'', ''.mass'', ''.density'', ''.position'', ''.velocity'', ''.color'']"
  shows "length (filter (\<lambda>e. key_suffix (fst e) = sfx)
      (header_entries n @ concat (map (body_entries d ms ps vs) [0..<N]))) = N"
proof -
  have "sfx \<noteq> []" using assms by auto
  then show ?thesis
    using length_filter_concat_one [of "[0..<N]" "\<lambda>e. key_suffix (fst e) = sfx"
        "body_entries d ms ps vs", OF body_one_suffix [OF assms]]
    by (simp add: header_no_suffix)
qed

lemma header_no_body_key:
  "filter (\<lambda>e. fst e = body_key i @ CHR ''.'' # f) (header_entries n) = []"
  by (simp add: header_entries_def body_key_def)

lemma body_other_key:
  "j \<noteq> i \<Longrightarrow> filter (\<lambda>e. fst e = body_key i @ CHR ''.'' # f) (body_entries d ms ps vs j) = []"
  by (simp add: body_entries_def)

lemma field_entries:
  assumes "i < N"
  shows "filter (\<lambda>e. fst e = body_key i @ CHR ''.'' # f)
      (header_entries n @ concat (map (body_entries d ms ps vs) [0..<N])) =
    filter (\<lambda>e. fst e = body_key i @ CHR ''.'' # f) (body_entries d ms ps vs i)"
proof -
  have "filter (\<lambda>e. fst e = body_key i @ CHR ''.'' # f)
      (concat (map (body_entries d ms ps vs) [0..<N])) =
    filter (\<lambda>e. fst e = body_key i @ CHR ''.'' # f) (body_entries d ms ps vs i)"
    using assms by (intro filter_concat_at) (simp_all add: body_other_key)
  then show ?thesis by (simp add: header_no_body_key)
qed

lemma field_values:
  "map snd (filter (\<lambda>e. fst e = body_key i @ ''.name'') (body_entries d ms ps vs i)) =
     [''Body '' @ str_nat i]"
  "map snd (filter (\<lambda>e. fst e = body_key i @ ''.mass'') (body_entries d ms ps vs i)) =
     [format_1f (ms ! i)]"
  "map snd (filter (\<lambda>e. fst e = body_key i @ ''.density'') (body_entries d ms ps vs i)) = [d]"
  "map snd (filter (\<lambda>e. fst e = body_key i @ ''.position'') (body_entries d ms ps vs i)) =
     [fmt_vec3 (ps ! i)]"
  "map snd (filter (\<lambda>e. fst e = body_key i @ ''.velocity'') (body_entries d ms ps vs i)) =
     [fmt_vec3 (vs ! i)]"
  "map snd (filter (\<lambda>e. fst e = body_key i @ ''.color'') (body_entries d ms ps vs i)) =
     [''200,200,200'']"
  by (simp_all add: body_entries_def)

lemma format_1f_nonempty: "format_1f x \<noteq> []"
  by (cases x) (simp_all add: format_finite_def Let_def)

lemma fmt_vec3_nonempty: "fmt_vec3 v \<noteq> []"
  by (cases v) (simp add: fmt_vec3_def format_1f_nonempty)

lemma header_no_point: "filter (\<lambda>e. CHR ''.'' \<in> set (fst e)) (header_entries n) = []"
  by (simp add: header_entries_def)

lemma body_section_keys:
  "map (\<lambda>e. key_prefix (fst e)) (filter (\<lambda>e. CHR ''.'' \<in> set (fst e)) (body_entries d ms ps vs i)) =
     replicate 6 (body_key i)"
  by (simp add: body_entries_def numeral_eq_Suc)

lemma section_keys_entries:
  "set (map (\<lambda>e. key_prefix (fst e)) (filter (\<lambda>e. CHR ''.'' \<in> set (fst e))
      (header_entries n @ concat (map (body_entries d ms ps vs) [0..<N])))) = body_key ` {0..<N}"
  by (simp add: header_no_point filter_concat map_concat comp_def body_section_keys) auto

lemma card_body_keys: "card (body_key ` {0..<N}) = N"
proof -
  have "inj_on body_key {0..<N}" by (rule inj_onI) (simp add: body_key_inj)
  then show ?thesis by (simp add: card_image)
qed

lemma global_values:
  assumes "g \<in> set [''name'', ''gravity'', ''timeStep'', ''bodies'']"
  shows "length (filter (\<lambda>e. fst e = g)
      (header_entries n @ concat (map (body_entries d ms ps vs) [0..<N]))) = 1"
proof -
  have "\<And>i. filter (\<lambda>e. fst e = g) (body_entries d ms ps vs i) = []"
    using assms by (auto simp: body_entries_def body_key_def)
  then have "filter (\<lambda>e. fst e = g) (concat (map (body_entries d ms ps vs) [0..<N])) = []"
    by (intro filter_concat_none) simp
  moreover have "length (filter (\<lambda>e. fst e = g) (header_entries n)) = 1"
    using assms by (auto simp: header_entries_def)
  ultimately show ?thesis by simp
qed

lemma section_heads_entries:
  "map (\<lambda>e. key_prefix (fst e)) (filter (\<lambda>e. key_suffix (fst e) = ''.name'')
      (header_entries n @ concat (map (body_entries d ms ps vs) [0..<N]))) = map body_key [0..<N]"
proof -
  have "\<And>i. map (\<lambda>e. key_prefix (fst e))
      (filter (\<lambda>e. key_suffix (fst e) = ''.name'') (body_entries d ms ps vs i)) = [body_key i]"
    by (simp add: body_entries_def)
  then have "map (\<lambda>e. key_prefix (fst e)) (filter (\<lambda>e. key_suffix (fst e) = ''.name'')
      (concat (map (body_entries d ms ps vs) [0..<N]))) = concat (map (\<lambda>i. [body_key i]) [0..<N])"
    by (simp add: filter_concat map_concat comp_def)
  also have "\<dots> = map body_key [0..<N]"
    by (induction N) simp_all
  finally show ?thesis by (simp add: header_no_suffix)
qed

lemma words_of_keys: "words_of (join '' '' (map body_key ks)) = map body_key ks"
proof (cases ks)
  case Nil
  then show ?thesis by (simp add: words_of_def)
next
  case (Cons k ks')
  have ne: "join '' '' (map body_key ks) \<noteq> []"
    using Cons by (intro join_nonempty) (auto simp: body_key_def)
  have "split_on CHR '' '' (join [CHR '' ''] (map body_key ks)) = map body_key ks"
    using Cons body_key_plain by (intro split_on_join_plain) auto
  then show ?thesis using ne by (simp add: words_of_def)
qed

lemma header_bodies_value:
  "(map_of rest ++ map_of (header_entries n)) ''bodies'' =
     Some (join '' '' (map body_key [0..<nat n]))"
  by (simp add: header_entries_def)

lemma header_constants:
  "(map_of rest ++ map_of (header_entries n)) ''gravity'' = Some ''10.0''"
  "(map_of rest ++ map_of (header_entries n)) ''timeStep'' = Some ''0.004''"
  by (simp_all add: header_entries_def)





lemma number_text_example: "number_text ''0.1''"
  by (simp add: number_text_def)

subsection \<open>The records of the document\<close>

text \<open>
  C1: when \<open>generate_bodies\<close> returns a document (and the density is the text of a
  number), its entries hold each of the six suffixes \<open>.name\<close>, \<open>.mass\<close>, \<open>.density\<close>,
  \<open>.position\<close>, \<open>.velocity\<close> and \<open>.color\<close> exactly \<open>n_bodies\<close> times; every body
  \<open>i\<close> below \<open>n_bodies\<close> has each of the five declared fields exactly once, with a
  non-empty value; the keys of the per-body entries are the \<open>n_bodies\<close> distinct keys
  \<open>body_key i\<close>, one record each; and each of the global keys \<open>name\<close>, \<open>gravity\<close>,
  \<open>timeStep\<close> and \<open>bodies\<close> occurs exactly once.
\<close>

theorem document_records:
  assumes "generate_bodies G n_bodies position_scale velocity_scale mass_scale density w = (Inr doc, w')"
    and "number_text density"
  shows "(\<forall>sfx \<in> set [''.name'', ''.mass'', ''.density'', ''.position'', ''.velocity'', ''.color''].
            suffix_count sfx doc = nat n_bodies) \<and>
         (\<forall>i < nat n_bodies. \<forall>sfx \<in> set [''.name'', ''.mass'', ''.density'', ''.position'', ''.velocity''].
            \<exists>v. v \<noteq> [] \<and> values_of (body_key i @ sfx) doc = [v]) \<and>
         set (section_keys doc) = body_key ` {0..<nat n_bodies} \<and>
         card (set (section_keys doc)) = nat n_bodies \<and>
         (\<forall>g \<in> set [''name'', ''gravity'', ''timeStep'', ''bodies'']. length (values_of g doc) = 1)"
proof -
  from assms(1) obtain positions velocities masses0 masses s4
    where doc: "doc = join [newline] (output_lines n_bodies density masses positions velocities)"
    by (rule generate_bodies_document)
  have d: "newline \<notin> set density" "density \<noteq> []"
    using number_text_plain [OF assms(2)] by simp_all
  have E: "entries doc = header_entries n_bodies @
      concat (map (body_entries density masses positions velocities) [0..<nat n_bodies])"
    unfolding doc by (rule entries_document [OF d(1)])
  have 1: "\<forall>sfx \<in> set [''.name'', ''.mass'', ''.density'', ''.position'', ''.velocity'', ''.color''].
      suffix_count sfx doc = nat n_bodies"
  proof
    fix sfx
    assume "sfx \<in> set [''.name'', ''.mass'', ''.density'', ''.position'', ''.velocity'', ''.color'']"
    then show "suffix_count sfx doc = nat n_bodies"
      unfolding suffix_count_def E by (rule suffix_count_entries)
  qed
  have 2: "\<exists>v. v \<noteq> [] \<and> values_of (body_key i @ sfx) doc = [v]"
    if "i < nat n_bodies" "sfx \<in> set [''.name'', ''.mass'', ''.density'', ''.position'', ''.velocity'']"
    for i sfx
  proof -
    from that(2) have "sfx = ''.name'' \<or> sfx = ''.mass'' \<or> sfx = ''.density'' \<or>
        sfx = ''.position'' \<or> sfx = ''.velocity''"
      by simp
    then show ?thesis
    proof (elim disjE)
      assume s: "sfx = ''.name''"
      show ?thesis
        unfolding values_of_def E s using field_entries [OF that(1), of "''name''"]
        by (simp add: field_values)
    next
      assume s: "sfx = ''.mass''"
      show ?thesis
        unfolding values_of_def E s using field_entries [OF that(1), of "''mass''"]
        by (simp add: field_values format_1f_nonempty)
    next
      assume s: "sfx = ''.density''"
      show ?thesis
        unfolding values_of_def E s using field_entries [OF that(1), of "''density''"] d(2)
        by (simp add: field_values)
    next
      assume s: "sfx = ''.position''"
      show ?thesis
        unfolding values_of_def E s using field_entries [OF that(1), of "''position''"]
        by (simp add: field_values fmt_vec3_nonempty)
    next
      assume s: "sfx = ''.velocity''"
      show ?thesis
        unfolding values_of_def E s using field_entries [OF that(1), of "''velocity''"]
        by (simp add: field_values fmt_vec3_nonempty)
    qed
  qed
  have 3: "set (section_keys doc) = body_key ` {0..<nat n_bodies}"
    unfolding section_keys_def E by (rule section_keys_entries)
  have 4: "card (set (section_keys doc)) = nat n_bodies"
    unfolding 3 by (rule card_body_keys)
  have 5: "\<forall>g \<in> set [''name'', ''gravity'', ''timeStep'', ''bodies'']. length (values_of g doc) = 1"
  proof
    fix g
    assume "g \<in> set [''name'', ''gravity'', ''timeStep'', ''bodies'']"
    then show "length (values_of g doc) = 1"
      unfolding values_of_def E length_map by (rule global_values)
  qed
  have two: "\<forall>i < nat n_bodies. \<forall>sfx \<in> set [''.name'', ''.mass'', ''.density'', ''.position'', ''.velocity''].
      \<exists>v. v \<noteq> [] \<and> values_of (body_key i @ sfx) doc = [v]"
  proof (intro allI impI ballI)
    fix i sfx
    assume "i < nat n_bodies"
      and "sfx \<in> set [''.name'', ''.mass'', ''.density'', ''.position'', ''.velocity'']"
    then show "\<exists>v. v \<noteq> [] \<and> values_of (body_key i @ sfx) doc = [v]" by (rule 2)
  qed
  show ?thesis
    by (intro conjI) (rule 1 two 3 4 5)+
qed

theorem document_records_witness:
  "generate_bodies G0 2 (Num 1000) (Num 30) (Num 10000) ''0.1'' w0 = (Inr example_doc, w0\<lparr>rng := 15\<rparr>) \<and>
   number_text ''0.1'' \<and>
   suffix_count ''.name'' example_doc = 2 \<and> suffix_count ''.mass'' example_doc = 2 \<and>
   suffix_count ''.density'' example_doc = 2 \<and> suffix_count ''.position'' example_doc = 2 \<and>
   suffix_count ''.velocity'' example_doc = 2 \<and> suffix_count ''.color'' example_doc = 2 \<and>
   card (set (section_keys example_doc)) = 2 \<and>
   length (values_of ''gravity'' example_doc) = 1 \<and>
   (\<exists>v. v \<noteq> [] \<and> values_of (body_key 1 @ ''.mass'') example_doc = [v])"
proof -
  note T = document_records [OF ex_gen number_text_example]
  have 1: "suffix_count ''.name'' example_doc = 2" "suffix_count ''.mass'' example_doc = 2"
    "suffix_count ''.density'' example_doc = 2" "suffix_count ''.position'' example_doc = 2"
    "suffix_count ''.velocity'' example_doc = 2" "suffix_count ''.color'' example_doc = 2"
    using T [THEN conjunct1] by simp_all
  have 2: "\<exists>v. v \<noteq> [] \<and> values_of (body_key 1 @ ''.mass'') example_doc = [v]"
    using T [THEN conjunct2, THEN conjunct1] by simp
  have 3: "card (set (section_keys example_doc)) = 2"
    using T [THEN conjunct2, THEN conjunct2, THEN conjunct2, THEN conjunct1] by simp
  have 4: "length (values_of ''gravity'' example_doc) = 1"
    using T [THEN conjunct2, THEN conjunct2, THEN conjunct2, THEN conjunct2] by simp
  from ex_gen number_text_example 1 2 3 4 show ?thesis by blast
qed

subsection \<open>The list of keys\<close>

text \<open>
  C2: the tenth line of a returned document is \<open>bodies=\<close> followed by the keys
  \<open>body0\<close>, \<open>body1\<close>, ... joined by single spaces; the value of the \<open>bodies\<close> entry
  lists exactly \<open>n_bodies\<close> keys, the \<open>i\<close>-th being \<open>body\<close> followed by the decimal
  digits of \<open>i\<close>, in ascending order.
\<close>

theorem bodies_line_lists_keys:
  assumes "generate_bodies G n_bodies position_scale velocity_scale mass_scale density w = (Inr doc, w')"
  shows "lines_of doc ! 9 = ''bodies='' @ join '' '' (map body_key [0..<nat n_bodies]) \<and>
         listed_keys doc = map body_key [0..<nat n_bodies] \<and>
         length (listed_keys doc) = nat n_bodies \<and>
         (\<forall>i < nat n_bodies. listed_keys doc ! i = ''body'' @ str_nat i)"
proof -
  from assms obtain positions velocities masses0 masses s4
    where doc: "doc = join [newline] (output_lines n_bodies density masses positions velocities)"
    by (rule generate_bodies_document)
  have "lines_of doc ! 9 = header_lines n_bodies ! 9"
    unfolding doc lines_of_document by (simp add: nth_append header_lines_def)
  then have 1: "lines_of doc ! 9 = ''bodies='' @ join '' '' (map body_key [0..<nat n_bodies])"
    by (simp add: header_lines_def)
  obtain rest where "entries doc = header_entries n_bodies @ rest"
    unfolding doc using entries_document_header by blast
  then have 2: "listed_keys doc = map body_key [0..<nat n_bodies]"
    by (simp add: listed_keys_def header_bodies_value words_of_keys)
  from 1 2 show ?thesis by (simp add: body_key_def)
qed

theorem bodies_line_lists_keys_witness:
  "generate_bodies G0 2 (Num 1000) (Num 30) (Num 10000) ''0.1'' w0 = (Inr example_doc, w0\<lparr>rng := 15\<rparr>) \<and>
   lines_of example_doc ! 9 = ''bodies=body0 body1'' \<and>
   listed_keys example_doc = [''body0'', ''body1'']"
proof -
  have u: "[0..<2::nat] = [0, 1]" by (simp add: numeral_2_eq_2)
  show ?thesis
    using bodies_line_lists_keys [OF ex_gen] ex_gen
    by (simp add: u body_key_def str_nat.simps digit_char_def)
qed

subsection \<open>The two constants\<close>

text \<open>
  C4: whatever the body count and the four scale arguments, a returned document has the
  lines \<open>gravity=10.0\<close> and \<open>timeStep=0.004\<close> (its sixth and eighth), the reader finds
  the values \<open>10.0\<close> and \<open>0.004\<close> under the two keys, and when the density is the text
  of a number these are the only entries with those keys.
\<close>

theorem constants_are_literal:
  assumes "generate_bodies G n_bodies position_scale velocity_scale mass_scale density w = (Inr doc, w')"
  shows "lines_of doc ! 5 = ''gravity=10.0'' \<and> lines_of doc ! 7 = ''timeStep=0.004'' \<and>
         map_of (entries doc) ''gravity'' = Some ''10.0'' \<and>
         map_of (entries doc) ''timeStep'' = Some ''0.004'' \<and>
         (number_text density \<longrightarrow>
            values_of ''gravity'' doc = [''10.0''] \<and> values_of ''timeStep'' doc = [''0.004''])"
proof -
  from assms obtain positions velocities masses0 masses s4
    where doc: "doc = join [newline] (output_lines n_bodies density masses positions velocities)"
    by (rule generate_bodies_document)
  have 1: "lines_of doc ! 5 = ''gravity=10.0''" "lines_of doc ! 7 = ''timeStep=0.004''"
    unfolding doc lines_of_document by (simp_all add: nth_append header_lines_def)
  obtain rest where "entries doc = header_entries n_bodies @ rest"
    unfolding doc using entries_document_header by blast
  then have 2: "map_of (entries doc) ''gravity'' = Some ''10.0''"
      "map_of (entries doc) ''timeStep'' = Some ''0.004''"
    by (simp_all add: header_constants)
  have 3: "values_of ''gravity'' doc = [''10.0''] \<and> values_of ''timeStep'' doc = [''0.004'']"
    if "number_text density"
  proof -
    have E: "entries doc = header_entries n_bodies @
        concat (map (body_entries density masses positions velocities) [0..<nat n_bodies])"
      unfolding doc using number_text_plain [OF that] by (intro entries_document) simp
    have "\<And>g. g \<in> set [''gravity'', ''timeStep''] \<Longrightarrow>
        filter (\<lambda>e. fst e = g)
          (concat (map (body_entries density masses positions velocities) [0..<nat n_bodies])) = []"
      by (intro filter_concat_none) (auto simp: body_entries_def body_key_def)
    then show ?thesis
      unfolding values_of_def E by (simp add: header_entries_def)
  qed
  from 1 2 3 show ?thesis by blast
qed

theorem constants_are_literal_witness:
  "generate_bodies G0 2 (Num 1000) (Num 30) (Num 10000) ''0.1'' w0 = (Inr example_doc, w0\<lparr>rng := 15\<rparr>) \<and>
   number_text ''0.1'' \<and>
   lines_of example_doc ! 5 = ''gravity=10.0'' \<and> lines_of example_doc ! 7 = ''timeStep=0.004'' \<and>
   values_of ''gravity'' example_doc = [''10.0''] \<and> values_of ''timeStep'' example_doc = [''0.004'']"
  using constants_are_literal [OF ex_gen] ex_gen number_text_example
  by simp

subsection \<open>Listed keys and sections\<close>

text \<open>
  C5: in a returned document the keys listed on the \<open>bodies\<close> line are, in order, the
  keys of the name entries that open the sections, they are pairwise distinct (so each
  listed key heads exactly one section), and the keys used by the per-body entries are
  exactly the listed ones.
\<close>

theorem listed_keys_match_sections:
  assumes "generate_bodies G n_bodies position_scale velocity_scale mass_scale density w = (Inr doc, w')"
    and "number_text density"
  shows "listed_keys doc = section_heads doc \<and> distinct (listed_keys doc) \<and>
         set (section_keys doc) = set (listed_keys doc)"
proof -
  from assms(1) obtain positions velocities masses0 masses s4
    where doc: "doc = join [newline] (output_lines n_bodies density masses positions velocities)"
    by (rule generate_bodies_document)
  have E: "entries doc = header_entries n_bodies @
      concat (map (body_entries density masses positions velocities) [0..<nat n_bodies])"
    unfolding doc using number_text_plain [OF assms(2)] by (intro entries_document) simp
  have 1: "listed_keys doc = map body_key [0..<nat n_bodies]"
    unfolding listed_keys_def E by (simp add: header_bodies_value words_of_keys)
  have 2: "section_heads doc = map body_key [0..<nat n_bodies]"
    unfolding section_heads_def E by (rule section_heads_entries)
  have 3: "distinct (map body_key [0..<nat n_bodies])"
    by (simp add: distinct_map inj_on_def body_key_inj)
  have 4: "set (section_keys doc) = body_key ` {0..<nat n_bodies}"
    unfolding section_keys_def E by (rule section_keys_entries)
  from 1 2 3 4 show ?thesis by simp
qed

theorem listed_keys_match_sections_witness:
  "generate_bodies G0 2 (Num 1000) (Num 30) (Num 10000) ''0.1'' w0 = (Inr example_doc, w0\<lparr>rng := 15\<rparr>) \<and>
   number_text ''0.1'' \<and>
   listed_keys example_doc = section_heads example_doc \<and> distinct (listed_keys example_doc) \<and>
   set (section_keys example_doc) = set (listed_keys example_doc)"
  using listed_keys_match_sections [OF ex_gen number_text_example] ex_gen number_text_example
  by blast

subsection \<open>Positions and velocities\<close>

















subsection \<open>The masses\<close>























subsection \<open>No bodies\<close>







subsection \<open>Purity\<close>

lemma generate_bodies_world:
  "snd (generate_bodies G n ps vs ms d w) = w\<lparr>rng := rng (snd (generate_bodies G n ps vs ms d w))\<rparr>"
  by (simp add: generate_bodies_def split: sum.splits prod.splits)

lemma generate_bodies_rng_only:
  assumes "rng w = rng w2"
  shows "fst (generate_bodies G n ps vs ms d w) = fst (generate_bodies G n ps vs ms d w2) \<and>
         rng (snd (generate_bodies G n ps vs ms d w)) = rng (snd (generate_bodies G n ps vs ms d w2))"
  using assms by (simp add: generate_bodies_def split: sum.splits prod.splits)

text \<open>
  C9: \<open>generate_bodies\<close> leaves the files, the console and the displayed figures as they
  were, whatever it returns; and its result and the generator's next state depend on
  the world only through the generator's state: two calls with the same arguments from
  worlds with the same generator state return the same document (or error).
\<close>

theorem generate_bodies_pure:
  "files (snd (generate_bodies G n_bodies position_scale velocity_scale mass_scale density w)) = files w \<and>
   console (snd (generate_bodies G n_bodies position_scale velocity_scale mass_scale density w)) = console w \<and>
   shown (snd (generate_bodies G n_bodies position_scale velocity_scale mass_scale density w)) = shown w \<and>
   (rng w = rng w2 \<longrightarrow>
      fst (generate_bodies G n_bodies position_scale velocity_scale mass_scale density w) =
      fst (generate_bodies G n_bodies position_scale velocity_scale mass_scale density w2) \<and>
      rng (snd (generate_bodies G n_bodies position_scale velocity_scale mass_scale density w)) =
      rng (snd (generate_bodies G n_bodies position_scale velocity_scale mass_scale density w2)))"
proof -
  have "files (w\<lparr>rng := s\<rparr>) = files w \<and> console (w\<lparr>rng := s\<rparr>) = console w \<and>
      shown (w\<lparr>rng := s\<rparr>) = shown w" for s
    by simp
  from this [of "rng (snd (generate_bodies G n_bodies position_scale velocity_scale mass_scale density w))"]
  show ?thesis
    using generate_bodies_rng_only [of w w2 G n_bodies position_scale velocity_scale mass_scale density]
    by (simp add: generate_bodies_world [symmetric])
qed

theorem generate_bodies_pure_witness:
  "rng w0 = rng w1 \<and>
   fst (generate_bodies G0 2 (Num 1000) (Num 30) (Num 10000) ''0.1'' w0) = fst (generate_bodies G0 2 (Num 1000) (Num 30) (Num 10000) ''0.1'' w1) \<and>
   fst (generate_bodies G0 2 (Num 1000) (Num 30) (Num 10000) ''0.1'' w1) = Inr example_doc \<and>
   files (snd (generate_bodies G0 2 (Num 1000) (Num 30) (Num 10000) ''0.1'' w1)) = files w1 \<and>
   console (snd (generate_bodies G0 2 (Num 1000) (Num 30) (Num 10000) ''0.1'' w1)) = console w1"
proof -
  have r: "rng w0 = rng w1" by (simp add: w0_def w1_def)
  from generate_bodies_pure [of G0 2 "Num 1000" "Num 30" "Num 10000" "''0.1''" w0 w1] r
  have 1: "fst (generate_bodies G0 2 (Num 1000) (Num 30) (Num 10000) ''0.1'' w0) =
      fst (generate_bodies G0 2 (Num 1000) (Num 30) (Num 10000) ''0.1'' w1)"
    by simp
  from generate_bodies_pure [of G0 2 "Num 1000" "Num 30" "Num 10000" "''0.1''" w1 w1]
  have 2: "files (snd (generate_bodies G0 2 (Num 1000) (Num 30) (Num 10000) ''0.1'' w1)) = files w1"
    "console (snd (generate_bodies G0 2 (Num 1000) (Num 30) (Num 10000) ''0.1'' w1)) = console w1"
    by simp_all
  from 1 ex_gen have 3: "fst (generate_bodies G0 2 (Num 1000) (Num 30) (Num 10000) ''0.1'' w1) = Inr example_doc"
    by simp
  from r 1 2 3 show ?thesis by simp
qed

subsection \<open>The visualizer and the entry point\<close>

lemma visualize_files:
  "files (snd (visualize_distributions G zipf_pmf n ps vs ms zp w)) = files w"
  by (simp add: visualize_distributions_def Let_def split: sum.splits prod.splits)

lemma visualize_console:
  "console (snd (visualize_distributions G zipf_pmf n ps vs ms zp w)) = console w"
  by (simp add: visualize_distributions_def Let_def split: sum.splits prod.splits)

lemma visualize_returns:
  assumes "0 < n" "is_double ps" "\<not> signbit ps" "is_double vs" "\<not> signbit vs"
  shows "fst (visualize_distributions G zipf_pmf n ps vs ms zp w) = Inr ()"
proof -
  have "length (fst (shuffle G (map f [1..<nat (n + 1)]) s)) = nat n"
    for f :: "nat \<Rightarrow> pyfloat" and s
    using assms(1) by (simp add: length_shuffle)
  then have "fst (shuffle G (map f [1..<nat (n + 1)]) s) \<noteq> []"
    for f :: "nat \<Rightarrow> pyfloat" and s
    using assms(1) by (metis length_0_conv nat_0_iff not_less)
  then show ?thesis
    using assms
    by (simp add: visualize_distributions_def random_normal_def Let_def split_beta)
qed

lemma generate_bodies_returns:
  assumes "0 \<le> n" "is_double ps" "\<not> signbit ps" "is_double vs" "\<not> signbit vs"
    "isfinite (mass_range ms)"
  shows "\<exists>doc s. generate_bodies G n ps vs ms d w = (Inr doc, w\<lparr>rng := s\<rparr>)"
proof -
  have "generate_bodies G n ps vs ms d w =
      (Inr (join [newline] (output_lines n d
          (fst (snd (snd (snd (samples G n ps vs ms (rng w))))))
          (fst (samples G n ps vs ms (rng w)))
          (fst (snd (samples G n ps vs ms (rng w)))))),
       w\<lparr>rng := snd (snd (snd (snd (samples G n ps vs ms (rng w)))))\<rparr>)"
    using generate_bodies_ok [OF assms, of G d w] by (simp add: split_beta)
  then show ?thesis by blast
qed

lemma main_run:
  "fst (main G zipf_pmf w) = Inr () \<and>
   (''Visualization saved to 'body_distributions.png'' @ [CHR 0x27])
      \<in> set (console (snd (main G zipf_pmf w))) \<and>
   (\<exists>doc. files (snd (main G zipf_pmf w)) = (files w)(''random_system.properties'' \<mapsto> doc))"
proof -
  have "\<exists>doc s. generate_bodies G 100 (Num 1000) (Num 30) (Num 10000) ''0.1'' w =
      (Inr doc, w\<lparr>rng := s\<rparr>)"
    by (rule generate_bodies_returns) (simp_all add: mass_range_default is_double_small)
  then obtain doc s
    where g: "generate_bodies G 100 (Num 1000) (Num 30) (Num 10000) ''0.1'' w =
      (Inr doc, w\<lparr>rng := s\<rparr>)"
    by blast
  define w2 where "w2 = write_file ''random_system.properties'' doc (w\<lparr>rng := s\<rparr>)"
  obtain u w3
    where v: "visualize_distributions G zipf_pmf 100 (Num 1000) (Num 30) (Num 10000)
        (Num (3 / 2)) w2 = (u, w3)"
    by (cases "visualize_distributions G zipf_pmf 100 (Num 1000) (Num 30) (Num 10000)
        (Num (3 / 2)) w2")
  have "fst (visualize_distributions G zipf_pmf 100 (Num 1000) (Num 30) (Num 10000)
      (Num (3 / 2)) w2) = Inr ()"
    by (rule visualize_returns) (simp_all add: is_double_small)
  then have u: "u = Inr ()" using v by simp
  have f3: "files w3 = (files w)(''random_system.properties'' \<mapsto> doc)"
    using visualize_files [of G zipf_pmf 100 "Num 1000" "Num 30" "Num 10000" "Num (3 / 2)" w2] v
    by (simp add: w2_def write_file_def)
  have m: "main G zipf_pmf w =
      (case random_normal G (Num 0) (Num 1000) 100
          (rng (print (''Visualization saved to 'body_distributions.png'' @ [CHR 0x27])
            (print (''Generated '' @ str_int 100 @ '' bodies in 'random_system.properties'' @ [CHR 0x27]) w3))) of
        Inl e \<Rightarrow> (Inl e, print (''Visualization saved to 'body_distributions.png'' @ [CHR 0x27])
            (print (''Generated '' @ str_int 100 @ '' bodies in 'random_system.properties'' @ [CHR 0x27]) w3))
      | Inr (positions, s6) \<Rightarrow>
     (case random_normal G (Num 0) (Num 30) 100 s6 of
        Inl e \<Rightarrow> (Inl e, (print (''Visualization saved to 'body_distributions.png'' @ [CHR 0x27])
            (print (''Generated '' @ str_int 100 @ '' bodies in 'random_system.properties'' @ [CHR 0x27]) w3))\<lparr>rng := s6\<rparr>)
      | Inr (velocities, s7) \<Rightarrow>
     (let ranks = [1..<nat (100 + 1)];
          masses = map (\<lambda>r. float_mul (float_mul (zipf_pmf r (Num (3 / 2))) (Num 10000))
                               (Num (of_int 100))) ranks;
          w8 = print (newline # ''Statistics:'') ((print (''Visualization saved to 'body_distributions.png'' @ [CHR 0x27])
            (print (''Generated '' @ str_int 100 @ '' bodies in 'random_system.properties'' @ [CHR 0x27]) w3))\<lparr>rng := s7\<rparr>);
          w9 = print (''Position range: ['' @ format_1f (array_min (flatten positions)) @ '', ''
                       @ format_1f (array_max (flatten positions)) @ '']'') w8;
          w10 = print (''Velocity range: ['' @ format_1f (array_min (flatten velocities)) @ '', ''
                       @ format_1f (array_max (flatten velocities)) @ '']'') w9;
          w11 = print (''Mass range: ['' @ format_1f (array_min masses) @ '', ''
                       @ format_1f (array_max masses) @ '']'') w10;
          w12 = print (''Largest mass / smallest mass: ''
                       @ format_1f (float_div (array_max masses) (array_min masses))) w11
      in (Inr (), w12))))"
    unfolding main_def Let_def g prod.case sum.case w2_def [symmetric] v u ..
  show ?thesis
    unfolding m
    by (simp add: random_normal_def is_double_small split_beta Let_def print_def f3
        del: upt_rec_numeral) blast
qed

text \<open>
  C8: \<open>visualize_distributions\<close> leaves the files as they were, for every input; and
  \<open>main\<close> runs to its end, prints the line that says the visualization was saved to
  \<open>body_distributions.png\<close>, and leaves that file as it was before the run (absent, if it
  was absent): the one file it writes is \<open>random_system.properties\<close>.
\<close>

theorem visualization_not_saved:
  "files (snd (visualize_distributions G zipf_pmf n_bodies position_scale velocity_scale mass_scale
      zipf_param w)) = files w \<and>
   fst (main G zipf_pmf w) = Inr () \<and>
   (''Visualization saved to 'body_distributions.png'' @ [CHR 0x27])
      \<in> set (console (snd (main G zipf_pmf w))) \<and>
   files (snd (main G zipf_pmf w)) ''body_distributions.png'' = files w ''body_distributions.png'' \<and>
   dom (files (snd (main G zipf_pmf w))) = insert ''random_system.properties'' (dom (files w))"
proof -
  from main_run [of G zipf_pmf w] obtain doc
    where 1: "fst (main G zipf_pmf w) = Inr ()"
      and 2: "(''Visualization saved to 'body_distributions.png'' @ [CHR 0x27])
          \<in> set (console (snd (main G zipf_pmf w)))"
      and 3: "files (snd (main G zipf_pmf w)) = (files w)(''random_system.properties'' \<mapsto> doc)"
    by blast
  have 4: "files (snd (main G zipf_pmf w)) ''body_distributions.png'' = files w ''body_distributions.png''"
    unfolding 3 by simp
  have 5: "dom (files (snd (main G zipf_pmf w))) = insert ''random_system.properties'' (dom (files w))"
    unfolding 3 by simp
  show ?thesis
    by (intro conjI) (rule visualize_files 1 2 4 5)+
qed

theorem visualization_not_saved_witness:
  "files (snd (visualize_distributions G0 (\<lambda>r a. Num (1 / of_nat r)) 2 (Num 1000) (Num 30)
      (Num 10000) (Num (3 / 2)) w0)) = files w0 \<and>
   files w0 ''body_distributions.png'' = None \<and>
   fst (main G0 (\<lambda>r a. Num (1 / of_nat r)) w0) = Inr () \<and>
   (''Visualization saved to 'body_distributions.png'' @ [CHR 0x27])
      \<in> set (console (snd (main G0 (\<lambda>r a. Num (1 / of_nat r)) w0))) \<and>
   files (snd (main G0 (\<lambda>r a. Num (1 / of_nat r)) w0)) ''body_distributions.png'' = None"
proof -
  have n: "files w0 ''body_distributions.png'' = None" by (simp add: w0_def)
  note T = visualization_not_saved [of G0 "\<lambda>r a. Num (1 / of_nat r)" 2 "Num 1000" "Num 30"
      "Num 10000" "Num (3 / 2)" w0]
  from T n show ?thesis by simp
qed

subsection \<open>Negative body counts\<close>

text \<open>
  C10: for a negative \<open>n_bodies\<close> the first sampling call, the one for the positions,
  raises ValueError, and \<open>generate_bodies\<close> ends with that error: no document is
  returned and the world, generator included, is as it was. (When the position scale is
  a Python int that no double holds, the error of that call is the OverflowError of the
  conversion instead.)
\<close>

theorem negative_count_raises:
  "n_bodies < 0 \<Longrightarrow>
     random_normal G (Num 0) position_scale n_bodies (rng w) =
       Inl (if is_double position_scale then ValueError else OverflowError) \<and>
     generate_bodies G n_bodies position_scale velocity_scale mass_scale density w =
       (Inl (if is_double position_scale then ValueError else OverflowError), w)"
  by (simp add: generate_bodies_def random_normal_def)

theorem negative_count_raises_witness:
  "(- 1 :: int) < 0 \<and>
     random_normal G0 (Num 0) (Num 1000) (- 1) (rng w0) = Inl ValueError \<and>
     generate_bodies G0 (- 1) (Num 1000) (Num 30) (Num 10000) ''0.1'' w0 = (Inl ValueError, w0)"
  using negative_count_raises [of "- 1" G0 "Num 1000" w0 "Num 30" "Num 10000" "''0.1''"]
  by (simp add: is_double_small)

end
